theory Spec2Isabelle
  imports Main "HOL-Library.Word"
begin

section \<open>The common application error handler (app\_error.h)\<close>

text \<open>
  The header is written for a 32-bit target: \<^verbatim>\<open>uint32_t\<close> and \<^verbatim>\<open>unsigned int\<close> are
  \<^typ>\<open>32 word\<close>, \<^verbatim>\<open>uint16_t\<close> is \<^typ>\<open>16 word\<close>, and a pointer is the 32-bit address it holds
  (\<^verbatim>\<open>info\<close> is a \<^verbatim>\<open>uint32_t\<close> that the reporting functions cast to a pointer). The null
  pointer is the address 0.
\<close>

subsection \<open>Fault identifiers\<close>

text \<open>
  \<^verbatim>\<open>#define NRF_FAULT_ID_SDK_RANGE_START 0x00004000\<close>,
  \<^verbatim>\<open>#define NRF_FAULT_ID_SDK_ERROR  NRF_FAULT_ID_SDK_RANGE_START + 1\<close>,
  \<^verbatim>\<open>#define NRF_FAULT_ID_SDK_ASSERT NRF_FAULT_ID_SDK_RANGE_START + 2\<close>.
  The header uses the two identifiers as \<^verbatim>\<open>case\<close> labels of a switch over a
  \<^verbatim>\<open>uint32_t\<close>, where each stands for the value of its sum.
\<close>

definition NRF_FAULT_ID_SDK_RANGE_START :: "32 word" where
  "NRF_FAULT_ID_SDK_RANGE_START = 0x00004000"

definition NRF_FAULT_ID_SDK_ERROR :: "32 word" where
  "NRF_FAULT_ID_SDK_ERROR = NRF_FAULT_ID_SDK_RANGE_START + 1"

definition NRF_FAULT_ID_SDK_ASSERT :: "32 word" where
  "NRF_FAULT_ID_SDK_ASSERT = NRF_FAULT_ID_SDK_RANGE_START + 2"

subsection \<open>The two info structures\<close>

text \<open>
  Both structures have fields called \<^verbatim>\<open>line_num\<close> and \<^verbatim>\<open>p_file_name\<close>; the fields of
  the first record are written with its name in front (\<open>error_info_t.line_num\<close>).
\<close>

record error_info_t =
  line_num :: "16 word"
  p_file_name :: "32 word"
  err_code :: "32 word"

record assert_info_t =
  line_num :: "16 word"
  p_file_name :: "32 word"

subsection \<open>Memory, observable events and outcomes\<close>

text \<open>
  The store the reporting functions read through \<^verbatim>\<open>info\<close>: \<open>assert_info_at mem a\<close> is the
  object that \<^verbatim>\<open>(assert_info_t *)(a)\<close> points to and \<open>error_info_at mem a\<close> the one that
  \<^verbatim>\<open>(error_info_t *)(a)\<close> points to, \<open>None\<close> where no such object lives (a null or
  dangling pointer). Reading a field through such a pointer is undefined behaviour in C;
  the model stops there with the outcome \<open>Invalid_read\<close>.
\<close>

record memory =
  assert_info_at :: "32 word \<rightharpoonup> assert_info_t"
  error_info_at :: "32 word \<rightharpoonup> error_info_t"

datatype info_field = Line_num | P_file_name | Err_code

text \<open>
  An argument handed to a \<^verbatim>\<open>printf\<close>-style sink: an \<^verbatim>\<open>unsigned int\<close> for \<^verbatim>\<open>%X\<close> and
  \<^verbatim>\<open>%u\<close>, or the pointer that \<^verbatim>\<open>%s\<close> formats as a string.
\<close>

datatype format_arg = Uint "32 word" | Str "32 word"

text \<open>
  What a run of the code does that its environment can observe, in order: a field read
  through a pointer, a call of \<^verbatim>\<open>printf\<close> (the formatted-text sink), a call of
  \<^verbatim>\<open>NRF_LOG_INFO\<close> (the logging sink), and a call of one of the two error handlers, which
  the header only declares.
\<close>

datatype event =
    Read_field "32 word" info_field
  | Printf string "format_arg list"
  | Nrf_log_info string "format_arg list"
  | App_error_handler "32 word" "32 word" string
  | App_error_handler_bare "32 word"

datatype outcome = Returns | Invalid_read "32 word"

definition CRLF :: string where
  "CRLF = [CHR 0x0D, CHR 0x0A]"

subsection \<open>app\_error\_log\<close>

text \<open>
  Every \<^verbatim>\<open>NRF_LOG_INFO\<close> call of the function is commented out in the source. What is
  left of each case is the test \<^verbatim>\<open>if (((T *)(info))->p_file_name) { }\<close> with an empty body,
  and the switch has no default case.
\<close>

definition app_error_log :: "memory \<Rightarrow> 32 word \<Rightarrow> 32 word \<Rightarrow> 32 word \<Rightarrow> event list \<times> outcome" where
  "app_error_log mem id' pc info =
    (if id' = NRF_FAULT_ID_SDK_ASSERT then
       (case assert_info_at mem info of
          None \<Rightarrow> ([Read_field info P_file_name], Invalid_read info)
        | Some a \<Rightarrow>
            ([Read_field info P_file_name] @ (if p_file_name a \<noteq> 0 then [] else []), Returns))
     else if id' = NRF_FAULT_ID_SDK_ERROR then
       (case error_info_at mem info of
          None \<Rightarrow> ([Read_field info P_file_name], Invalid_read info)
        | Some e \<Rightarrow>
            ([Read_field info P_file_name] @ (if error_info_t.p_file_name e \<noteq> 0 then [] else []),
             Returns))
     else ([], Returns))"

subsection \<open>app\_error\_print\<close>

text \<open>
  Four unconditional \<^verbatim>\<open>printf\<close> calls, then the switch. The arguments of a call are
  evaluated before the call, so each field read comes before the \<^verbatim>\<open>printf\<close> that prints
  it. \<^verbatim>\<open>p_file_name\<close> goes to \<^verbatim>\<open>%s\<close> as it is read. The local \<^verbatim>\<open>tmp\<close> is an
  \<^verbatim>\<open>unsigned int\<close> that takes each printed number on its way to \<^verbatim>\<open>printf\<close> (a
  \<^verbatim>\<open>uint16_t\<close> line number is widened); nothing reads it afterwards.
\<close>

definition print_header :: "32 word \<Rightarrow> 32 word \<Rightarrow> 32 word \<Rightarrow> event list" where
  "print_header id' pc info =
    [Printf (''app_error_print():'' @ CRLF) [],
     Printf (''Fault identifier:  0x%X'' @ CRLF) [Uint id'],
     Printf (''Program counter:   0x%X'' @ CRLF) [Uint pc],
     Printf (''Fault information: 0x%X'' @ CRLF) [Uint info]]"

definition app_error_print :: "memory \<Rightarrow> 32 word \<Rightarrow> 32 word \<Rightarrow> 32 word \<Rightarrow> event list \<times> outcome" where
  "app_error_print mem id' pc info =
    (if id' = NRF_FAULT_ID_SDK_ASSERT then
       (case assert_info_at mem info of
          None \<Rightarrow> (print_header id' pc info @ [Read_field info Line_num], Invalid_read info)
        | Some a \<Rightarrow>
            (print_header id' pc info @
             [Read_field info Line_num,
              Printf (''Line Number: %u'' @ CRLF) [Uint (ucast (line_num a))],
              Read_field info P_file_name,
              Printf (''File Name:   %s'' @ CRLF) [Str (p_file_name a)]],
             Returns))
     else if id' = NRF_FAULT_ID_SDK_ERROR then
       (case error_info_at mem info of
          None \<Rightarrow> (print_header id' pc info @ [Read_field info Line_num], Invalid_read info)
        | Some e \<Rightarrow>
            (print_header id' pc info @
             [Read_field info Line_num,
              Printf (''Line Number: %u'' @ CRLF) [Uint (ucast (error_info_t.line_num e))],
              Read_field info P_file_name,
              Printf (''File Name:   %s'' @ CRLF) [Str (error_info_t.p_file_name e)],
              Read_field info Err_code,
              Printf (''Error Code:  0x%X'' @ CRLF) [Uint (err_code e)]],
             Returns))
     else (print_header id' pc info, Returns))"

subsection \<open>The macros\<close>

text \<open>
  A macro argument is an expression, substituted as text: it is modelled as a function
  from the program state to its value and the state after its side effects, the value
  taken as the \<^verbatim>\<open>uint32_t\<close> that initialises the macro's local constant. A macro's run
  gives the events of its expansion and the state it leaves.

  \<^verbatim>\<open>APP_ERROR_HANDLER\<close> has two definitions, chosen by \<^verbatim>\<open>#ifdef DEBUG\<close>; \<open>LINE\<close> and
  \<open>FILE\<close> are \<^verbatim>\<open>__LINE__\<close> and \<^verbatim>\<open>__FILE__\<close> at the place of the expansion.
\<close>

definition APP_ERROR_HANDLER :: "bool \<Rightarrow> 32 word \<Rightarrow> string \<Rightarrow> 32 word \<Rightarrow> event list" where
  "APP_ERROR_HANDLER DEBUG LINE FILE ERR_CODE =
    (if DEBUG then [App_error_handler ERR_CODE LINE FILE]
     else [App_error_handler_bare ERR_CODE])"

text \<open>
  \<^verbatim>\<open>NRF_SUCCESS\<close> comes from sdk\_errors.h, which the header includes and the
  repository does not hold: it is a parameter. The body of the \<^verbatim>\<open>if\<close> is
  \<^verbatim>\<open>/* APP_ERROR_HANDLER(LOCAL_ERR_CODE)*/;\<close>: the call is inside a comment and an empty
  statement is left.
\<close>

definition APP_ERROR_CHECK ::
    "32 word \<Rightarrow> ('s \<Rightarrow> 32 word \<times> 's) \<Rightarrow> 's \<Rightarrow> event list \<times> 's" where
  "APP_ERROR_CHECK NRF_SUCCESS ERR_CODE s =
    (case ERR_CODE s of (LOCAL_ERR_CODE, s') \<Rightarrow>
       if LOCAL_ERR_CODE \<noteq> NRF_SUCCESS then ([], s') else ([], s'))"

definition APP_ERROR_CHECK_BOOL ::
    "bool \<Rightarrow> 32 word \<Rightarrow> string \<Rightarrow> ('s \<Rightarrow> 32 word \<times> 's) \<Rightarrow> 's \<Rightarrow> event list \<times> 's" where
  "APP_ERROR_CHECK_BOOL DEBUG LINE FILE BOOLEAN_VALUE s =
    (case BOOLEAN_VALUE s of (LOCAL_BOOLEAN_VALUE, s') \<Rightarrow>
       if LOCAL_BOOLEAN_VALUE = 0 then (APP_ERROR_HANDLER DEBUG LINE FILE 0, s') else ([], s'))"

subsection \<open>app\_error\_save\_and\_stop\<close>

text \<open>
  Modelled from the spec: the header only declares \<^verbatim>\<open>app_error_save_and_stop\<close>; its body
  (app\_error.c) is not in the repository. The spec's contract is to persist \<open>id\<close>, \<open>pc\<close>
  and \<open>info\<close> (into a memory region that survives a warm reset) and then to enter a
  non-returning state, an infinite wait. The result is the content of that region when
  the wait begins, and what the wait returns: \<open>None\<close> is "never returns".
\<close>

record fault_record =
  fault_id :: "32 word"
  fault_pc :: "32 word"
  fault_info :: "32 word"

partial_function (option) infinite_wait :: "unit \<Rightarrow> unit option" where
  "infinite_wait u = infinite_wait u"

definition app_error_save_and_stop ::
    "32 word \<Rightarrow> 32 word \<Rightarrow> 32 word \<Rightarrow> fault_record option \<Rightarrow> fault_record option \<times> unit option" where
  "app_error_save_and_stop id' pc info region =
    (let region' = Some \<lparr>fault_id = id', fault_pc = pc, fault_info = info\<rparr>
     in (region', infinite_wait ()))"

section \<open>Properties\<close>

lemmas fault_id_defs =
  NRF_FAULT_ID_SDK_RANGE_START_def NRF_FAULT_ID_SDK_ERROR_def NRF_FAULT_ID_SDK_ASSERT_def

lemma fault_ids_distinct: "NRF_FAULT_ID_SDK_ERROR \<noteq> NRF_FAULT_ID_SDK_ASSERT"
  by (simp add: fault_id_defs)

subsection \<open>Fault identifiers\<close>

text \<open>
  C9: the range of SDK fault identifiers starts at 0x00004000, and the two identifiers
  sit at fixed offsets from it: \<^verbatim>\<open>NRF_FAULT_ID_SDK_ERROR\<close> is the range start plus 1, that
  is 0x00004001, and \<^verbatim>\<open>NRF_FAULT_ID_SDK_ASSERT\<close> is the range start plus 2, that is
  0x00004002.
\<close>

theorem fault_ids_at_fixed_offsets:
  "NRF_FAULT_ID_SDK_RANGE_START = 0x00004000 \<and>
   NRF_FAULT_ID_SDK_ERROR = NRF_FAULT_ID_SDK_RANGE_START + 1 \<and>
   NRF_FAULT_ID_SDK_ERROR = 0x00004001 \<and>
   NRF_FAULT_ID_SDK_ASSERT = NRF_FAULT_ID_SDK_RANGE_START + 2 \<and>
   NRF_FAULT_ID_SDK_ASSERT = 0x00004002"
  by (simp add: fault_id_defs)

subsection \<open>The check macros\<close>

text \<open>
  \<^verbatim>\<open>APP_ERROR_CHECK\<close> produces no event, whatever its argument and whatever the success
  value: the only statement under its test is empty.
\<close>

lemma APP_ERROR_CHECK_no_events: "fst (APP_ERROR_CHECK NRF_SUCCESS ERR_CODE s) = []"
  by (simp add: APP_ERROR_CHECK_def split: prod.split)

text \<open>
  C1, at the input where the code departs from it: with the success value 0, checking
  the failure code 0x0B (an expression without side effects) calls no error handler; the
  run has no event at all and leaves the state as it was. The macro's documentation says
  it calls the error handler for every code other than \<^verbatim>\<open>NRF_SUCCESS\<close>.
\<close>

theorem APP_ERROR_CHECK_failure_not_escalated:
  "APP_ERROR_CHECK 0 (\<lambda>s::unit. (0x0B, s)) () = ([], ())"
  by (simp add: APP_ERROR_CHECK_def)

text \<open>
  C3: for every boolean \<open>b\<close> passed to \<^verbatim>\<open>APP_ERROR_CHECK_BOOL\<close> (a C \<^verbatim>\<open>bool\<close> becomes the
  \<^verbatim>\<open>uint32_t\<close> 1 or 0), the run calls no handler when \<open>b\<close> is true, and when \<open>b\<close> is
  false it calls the error handler exactly once with the code 0: \<^verbatim>\<open>app_error_handler\<close>
  with the line and file of the call in a \<^verbatim>\<open>DEBUG\<close> build, \<^verbatim>\<open>app_error_handler_bare\<close>
  otherwise.
\<close>

theorem APP_ERROR_CHECK_BOOL_escalates_iff_false:
  "fst (APP_ERROR_CHECK_BOOL DEBUG LINE FILE (\<lambda>s. (of_bool b, s)) s) =
     (if b then []
      else if DEBUG then [App_error_handler 0 LINE FILE]
      else [App_error_handler_bare 0])"
  by (simp add: APP_ERROR_CHECK_BOOL_def APP_ERROR_HANDLER_def)

text \<open>
  C5: each check macro evaluates its argument expression exactly once. The state a
  macro leaves is the state after one evaluation of the argument from the state the
  macro started in; in particular an argument that increments a counter leaves the
  counter exactly one higher, for \<^verbatim>\<open>APP_ERROR_CHECK\<close> and for \<^verbatim>\<open>APP_ERROR_CHECK_BOOL\<close> in
  both build configurations, whatever value the argument has.
\<close>

theorem check_argument_evaluated_once:
  "snd (APP_ERROR_CHECK NRF_SUCCESS ERR_CODE s) = snd (ERR_CODE s) \<and>
   snd (APP_ERROR_CHECK_BOOL DEBUG LINE FILE BOOLEAN_VALUE s) = snd (BOOLEAN_VALUE s) \<and>
   snd (APP_ERROR_CHECK NRF_SUCCESS (\<lambda>counter::nat. (f counter, counter + 1)) n) = n + 1 \<and>
   snd (APP_ERROR_CHECK_BOOL DEBUG LINE FILE (\<lambda>counter::nat. (f counter, counter + 1)) n) = n + 1"
  by (simp add: APP_ERROR_CHECK_def APP_ERROR_CHECK_BOOL_def split: prod.split)

subsection \<open>The reporting functions\<close>

text \<open>
  C2, at the input where the code departs from it: for \<^verbatim>\<open>NRF_FAULT_ID_SDK_ERROR\<close> and
  \<open>info\<close> pointing to the record with line 42, a non-null file name (the address of
  "foo.c") and error code 7, \<^verbatim>\<open>app_error_log\<close> reads the \<^verbatim>\<open>p_file_name\<close> field and
  returns: it hands nothing to the logging sink, neither the line number nor the file
  name nor the error code. Its documentation says it prints all error info.
\<close>

theorem app_error_log_SDK_ERROR_emits_nothing:
  "app_error_log
     \<lparr>assert_info_at = Map.empty,
      error_info_at = [0x20000000 \<mapsto>
        \<lparr>error_info_t.line_num = 42, error_info_t.p_file_name = 0x20000100, err_code = 7\<rparr>]\<rparr>
     NRF_FAULT_ID_SDK_ERROR 0 0x20000000
   = ([Read_field 0x20000000 P_file_name], Returns)"
  by (simp add: app_error_log_def fault_ids_distinct)

text \<open>
  C7, at the input where the code departs from it: for \<^verbatim>\<open>NRF_FAULT_ID_SDK_ASSERT\<close> and
  \<open>info\<close> pointing to the record with line 10 and a non-null file name (the address of
  "bar.c"), \<^verbatim>\<open>app_error_log\<close> reads the \<^verbatim>\<open>p_file_name\<close> field and returns: it hands
  neither the line number nor the file name to the logging sink.
\<close>

theorem app_error_log_SDK_ASSERT_emits_nothing:
  "app_error_log
     \<lparr>assert_info_at = [0x20000000 \<mapsto> \<lparr>line_num = 10, p_file_name = 0x20000100\<rparr>],
      error_info_at = Map.empty\<rparr>
     NRF_FAULT_ID_SDK_ASSERT 0 0x20000000
   = ([Read_field 0x20000000 P_file_name], Returns)"
  by (simp add: app_error_log_def)

text \<open>
  C4: for every identifier other than \<^verbatim>\<open>NRF_FAULT_ID_SDK_ERROR\<close> and
  \<^verbatim>\<open>NRF_FAULT_ID_SDK_ASSERT\<close>, whatever the memory holds and whatever \<open>pc\<close> and \<open>info\<close>
  are, \<^verbatim>\<open>app_error_log\<close> does nothing and returns, and \<^verbatim>\<open>app_error_print\<close> makes exactly
  its four unconditional \<^verbatim>\<open>printf\<close> calls (the title line, then the raw identifier, the
  program counter and the info value), reads nothing through \<open>info\<close>, and returns.
\<close>

theorem unknown_id_reports_no_fields:
  assumes "id' \<noteq> NRF_FAULT_ID_SDK_ERROR" and "id' \<noteq> NRF_FAULT_ID_SDK_ASSERT"
  shows "app_error_log mem id' pc info = ([], Returns) \<and>
         app_error_print mem id' pc info =
          ([Printf (''app_error_print():'' @ CRLF) [],
            Printf (''Fault identifier:  0x%X'' @ CRLF) [Uint id'],
            Printf (''Program counter:   0x%X'' @ CRLF) [Uint pc],
            Printf (''Fault information: 0x%X'' @ CRLF) [Uint info]], Returns)"
  using assms by (simp add: app_error_log_def app_error_print_def print_header_def)

theorem unknown_id_reports_no_fields_witness:
  "(0x00004003 :: 32 word) \<noteq> NRF_FAULT_ID_SDK_ERROR \<and>
   (0x00004003 :: 32 word) \<noteq> NRF_FAULT_ID_SDK_ASSERT \<and>
   app_error_log \<lparr>assert_info_at = Map.empty, error_info_at = Map.empty\<rparr> 0x00004003 0 0
     = ([], Returns) \<and>
   app_error_print \<lparr>assert_info_at = Map.empty, error_info_at = Map.empty\<rparr> 0x00004003 0 0
     = ([Printf (''app_error_print():'' @ CRLF) [],
         Printf (''Fault identifier:  0x%X'' @ CRLF) [Uint 0x00004003],
         Printf (''Program counter:   0x%X'' @ CRLF) [Uint 0],
         Printf (''Fault information: 0x%X'' @ CRLF) [Uint 0]], Returns)"
  using unknown_id_reports_no_fields
    [of "0x00004003" "\<lparr>assert_info_at = Map.empty, error_info_at = Map.empty\<rparr>" 0 0]
  by (simp add: fault_id_defs)

text \<open>
  C6: the two reporting functions treat the file name differently. For both known
  identifiers and every record \<open>info\<close> points to, \<^verbatim>\<open>app_error_log\<close> only reads
  \<^verbatim>\<open>p_file_name\<close> to test it and hands it to no sink, so nothing dereferences it, while
  \<^verbatim>\<open>app_error_print\<close> passes \<^verbatim>\<open>p_file_name\<close> to the \<^verbatim>\<open>%s\<close> of its "File Name" line as it
  is, without a test; the witness is a record whose \<^verbatim>\<open>p_file_name\<close> is null, where the
  pointer printed as a string is 0.
\<close>

theorem file_name_null_guard_differs:
  "(assert_info_at mem info = Some a \<longrightarrow>
      app_error_log mem NRF_FAULT_ID_SDK_ASSERT pc info = ([Read_field info P_file_name], Returns) \<and>
      Printf (''File Name:   %s'' @ CRLF) [Str (p_file_name a)]
        \<in> set (fst (app_error_print mem NRF_FAULT_ID_SDK_ASSERT pc info))) \<and>
   (error_info_at mem info = Some e \<longrightarrow>
      app_error_log mem NRF_FAULT_ID_SDK_ERROR pc info = ([Read_field info P_file_name], Returns) \<and>
      Printf (''File Name:   %s'' @ CRLF) [Str (error_info_t.p_file_name e)]
        \<in> set (fst (app_error_print mem NRF_FAULT_ID_SDK_ERROR pc info)))"
  by (simp add: app_error_log_def app_error_print_def fault_ids_distinct)

theorem file_name_null_guard_differs_witness:
  "app_error_log
     \<lparr>assert_info_at = [0x20000000 \<mapsto> \<lparr>line_num = 10, p_file_name = 0\<rparr>],
      error_info_at = [0x20000000 \<mapsto>
        \<lparr>error_info_t.line_num = 42, error_info_t.p_file_name = 0, err_code = 7\<rparr>]\<rparr>
     NRF_FAULT_ID_SDK_ASSERT 0 0x20000000 = ([Read_field 0x20000000 P_file_name], Returns) \<and>
   Printf (''File Name:   %s'' @ CRLF) [Str 0]
     \<in> set (fst (app_error_print
     \<lparr>assert_info_at = [0x20000000 \<mapsto> \<lparr>line_num = 10, p_file_name = 0\<rparr>],
      error_info_at = [0x20000000 \<mapsto>
        \<lparr>error_info_t.line_num = 42, error_info_t.p_file_name = 0, err_code = 7\<rparr>]\<rparr>
     NRF_FAULT_ID_SDK_ASSERT 0 0x20000000)) \<and>
   app_error_log
     \<lparr>assert_info_at = [0x20000000 \<mapsto> \<lparr>line_num = 10, p_file_name = 0\<rparr>],
      error_info_at = [0x20000000 \<mapsto>
        \<lparr>error_info_t.line_num = 42, error_info_t.p_file_name = 0, err_code = 7\<rparr>]\<rparr>
     NRF_FAULT_ID_SDK_ERROR 0 0x20000000 = ([Read_field 0x20000000 P_file_name], Returns) \<and>
   Printf (''File Name:   %s'' @ CRLF) [Str 0]
     \<in> set (fst (app_error_print
     \<lparr>assert_info_at = [0x20000000 \<mapsto> \<lparr>line_num = 10, p_file_name = 0\<rparr>],
      error_info_at = [0x20000000 \<mapsto>
        \<lparr>error_info_t.line_num = 42, error_info_t.p_file_name = 0, err_code = 7\<rparr>]\<rparr>
     NRF_FAULT_ID_SDK_ERROR 0 0x20000000))"
  using file_name_null_guard_differs
    [of "\<lparr>assert_info_at = [0x20000000 \<mapsto> \<lparr>line_num = 10, p_file_name = 0\<rparr>],
      error_info_at = [0x20000000 \<mapsto>
        \<lparr>error_info_t.line_num = 42, error_info_t.p_file_name = 0, err_code = 7\<rparr>]\<rparr>"
        "0x20000000" "\<lparr>line_num = 10, p_file_name = 0\<rparr>" 0
        "\<lparr>error_info_t.line_num = 42, error_info_t.p_file_name = 0, err_code = 7\<rparr>"]
  by simp

text \<open>
  C10: for every input, \<^verbatim>\<open>app_error_log\<close> writes nothing to any sink: the only event a
  run can have is the read of the \<^verbatim>\<open>p_file_name\<close> field through \<open>info\<close>. It has exactly
  that one event when the identifier is one of the two known ones, and for any other
  identifier it has no event, reads nothing through \<open>info\<close>, and returns.
\<close>

theorem app_error_log_frame:
  "set (fst (app_error_log mem id' pc info)) \<subseteq> {Read_field info P_file_name} \<and>
   (id' = NRF_FAULT_ID_SDK_ASSERT \<or> id' = NRF_FAULT_ID_SDK_ERROR \<longrightarrow>
      fst (app_error_log mem id' pc info) = [Read_field info P_file_name]) \<and>
   (id' \<noteq> NRF_FAULT_ID_SDK_ASSERT \<and> id' \<noteq> NRF_FAULT_ID_SDK_ERROR \<longrightarrow>
      app_error_log mem id' pc info = ([], Returns))"
  by (simp add: app_error_log_def split: option.split)

theorem app_error_log_frame_witness:
  "fst (app_error_log \<lparr>assert_info_at = Map.empty, error_info_at = Map.empty\<rparr>
          NRF_FAULT_ID_SDK_ERROR 0 0) = [Read_field 0 P_file_name] \<and>
   app_error_log \<lparr>assert_info_at = Map.empty, error_info_at = Map.empty\<rparr> 0 0 0 = ([], Returns)"
  using app_error_log_frame [of "\<lparr>assert_info_at = Map.empty, error_info_at = Map.empty\<rparr>"
      NRF_FAULT_ID_SDK_ERROR 0 0]
    app_error_log_frame [of "\<lparr>assert_info_at = Map.empty, error_info_at = Map.empty\<rparr>" 0 0 0]
  by (simp add: fault_id_defs)

subsection \<open>The fault entry point\<close>

lemma infinite_wait_never_returns: "infinite_wait u \<noteq> Some r"
proof
  assume h: "infinite_wait u = Some r"
  show False
    by (rule infinite_wait.raw_induct [where P = "\<lambda>_ _. False", OF _ h]) blast
qed

text \<open>
  C8: for every \<open>id\<close>, \<open>pc\<close> and \<open>info\<close> (a null \<open>info\<close> included) and whatever the
  retained region held before, \<^verbatim>\<open>app_error_save_and_stop\<close> stores the triple
  \<open>(id, pc, info)\<close> in the region and then never returns to its caller.
\<close>

theorem app_error_save_and_stop_never_returns:
  "fst (app_error_save_and_stop id' pc info region) =
     Some \<lparr>fault_id = id', fault_pc = pc, fault_info = info\<rparr> \<and>
   snd (app_error_save_and_stop id' pc info region) = None"
  using infinite_wait_never_returns [of "()"]
  by (cases "infinite_wait ()") (simp_all add: app_error_save_and_stop_def)

end
